theory Spec2Isabelle
  imports Main "HOL-Library.Sublist"
begin

section \<open>Data model of \<open>src/pages/TimetableView.tsx\<close>\<close>

text \<open>
  JavaScript strings are modelled as \<^typ>\<open>string\<close>; a \<^typ>\<open>char\<close> stands for a code
  unit below 256. A cell of a raw row is a \<^typ>\<open>string option\<close>: \<open>None\<close> is a cell
  that is \<open>undefined\<close> or \<open>null\<close> in the stored JSON. The optional field \<open>division\<close>
  of a \<open>TimetableRow\<close> is \<open>row_division\<close> here, the name \<open>division\<close> being taken by
  \<open>StoredTimetable\<close>.
\<close>

type_synonym raw_row = "string option list"

record Table =
  headers :: "string list"
  rows :: "raw_row list"

record StoredTimetable =
  filename :: string
  branch :: string
  division :: string
  year :: string
  generatedAt :: string
  timetable :: "Table option"

record TimetableRow =
  day :: string
  time :: string
  row_division :: "string option"
  classBatch :: string
  courseName :: string
  faculty :: string
  venue :: string

section \<open>String operations of the JavaScript runtime used by the component\<close>

text \<open>
  \<open>String.prototype.trim\<close> removes white space and line terminators from both ends.
  Among the code units below 256 these are TAB, LF, VT, FF, CR, SPACE and NBSP.
\<close>

definition isWhiteSpace :: "char \<Rightarrow> bool" where
  "isWhiteSpace c \<longleftrightarrow>
     c \<in> set [CHR 0x09, CHR 0x0A, CHR 0x0B, CHR 0x0C, CHR 0x0D, CHR 0x20, CHR 0xA0]"

definition trim :: "string \<Rightarrow> string" where
  "trim s = rev (dropWhile isWhiteSpace (rev (dropWhile isWhiteSpace s)))"

text \<open>
  \<open>s.replace(/\*\*/g, '')\<close>: the global regular expression is matched from left to
  right; each match of two adjacent asterisks is deleted and the scan goes on behind it.
\<close>

fun replaceMarker :: "string \<Rightarrow> string" where
  "replaceMarker (a # b # cs) =
     (if a = CHR ''*'' \<and> b = CHR ''*'' then replaceMarker cs
      else a # replaceMarker (b # cs))"
| "replaceMarker cs = cs"

text \<open>\<open>row[i]\<close> on an array: the element, or \<open>undefined\<close> out of range.\<close>

definition index :: "raw_row \<Rightarrow> nat \<Rightarrow> string option" where
  "index row i = (if i < length row then row ! i else None)"

text \<open>\<open>v || ''\<close>: \<open>undefined\<close>, \<open>null\<close> and the empty string are falsy.\<close>

definition orEmpty :: "string option \<Rightarrow> string" where
  "orEmpty v = (case v of None \<Rightarrow> [] | Some s \<Rightarrow> (if s = [] then [] else s))"

section \<open>\<open>parseSelectedTimetable\<close>: the row parser and the entry filter\<close>

text \<open>The callback of \<open>rows.map\<close> (lines 145--157).\<close>

definition parseRow :: "raw_row \<Rightarrow> TimetableRow" where
  "parseRow row =
     (let cleanDay = trim (replaceMarker (orEmpty (index row 0)))
      in \<lparr> day = cleanDay,
           time = orEmpty (index row 1),
           row_division = Some [],
           classBatch = orEmpty (index row 2),
           courseName = orEmpty (index row 3),
           faculty = orEmpty (index row 4),
           venue = orEmpty (index row 5) \<rparr>)"

text \<open>
  The predicate of \<open>.filter\<close> (lines 158--167). A string is truthy when it is not
  empty; the conjuncts are kept in the order of the source.
\<close>

definition keepRow :: "TimetableRow \<Rightarrow> bool" where
  "keepRow row \<longleftrightarrow>
     courseName row \<noteq> [] \<and>
     courseName row \<noteq> ''LUNCH'' \<and>
     trim (courseName row) \<noteq> [] \<and>
     day row \<noteq> [] \<and>
     day row \<noteq> ''ALL'' \<and>
     day row \<noteq> [] \<and>
     time row \<noteq> ''1:00-2:00''"

definition entryFilter :: "TimetableRow list \<Rightarrow> TimetableRow list" where
  "entryFilter parsed = filter keepRow parsed"

text \<open>
  \<open>parseSelectedTimetable\<close> reads the component's \<open>selectedTimetable\<close> state, which
  is passed here as an argument (\<open>None\<close> is \<open>null\<close>).
\<close>

definition parseSelectedTimetable :: "StoredTimetable option \<Rightarrow> TimetableRow list" where
  "parseSelectedTimetable selectedTimetable =
     (case selectedTimetable of
        None \<Rightarrow> []
      | Some st \<Rightarrow>
          (case timetable st of
             None \<Rightarrow> []
           | Some tb \<Rightarrow> entryFilter (map parseRow (rows tb))))"

text \<open>The constants of the grid (lines 189--193).\<close>

definition days :: "string list" where
  "days = [''Monday'', ''Tuesday'', ''Wednesday'', ''Thursday'', ''Friday'']"

definition timeSlots :: "string list" where
  "timeSlots = [''9:00-10:00'', ''10:00-11:00'', ''11:00-12:00'', ''12:00-1:00'',
                ''2:00-3:00'', ''3:00-4:00'', ''4:00-5:00'']"

section \<open>\<open>groupTimetableByDayAndTime\<close>\<close>

text \<open>
  \<open>grouped\<close> is a plain object literal \<open>{}\<close> used as a dictionary, read with
  \<open>grouped[key]\<close> and tested for truthiness. Its own properties are modelled as a map
  from day to a map from time to the array of rows. A property read on a plain object
  also finds the members it inherits from \<open>Object.prototype\<close>; the names of its
  standard members are fixed by the language.
\<close>

type_synonym WeeklyGrid = "string \<rightharpoonup> (string \<rightharpoonup> TimetableRow list)"

definition objectPrototypeNames :: "string list" where
  "objectPrototypeNames =
     [''constructor'', ''__defineGetter__'', ''__defineSetter__'', ''hasOwnProperty'',
      ''__lookupGetter__'', ''__lookupSetter__'', ''isPrototypeOf'',
      ''propertyIsEnumerable'', ''toString'', ''valueOf'', ''__proto__'',
      ''toLocaleString'']"

text \<open>\<open>TypeError\<close>: the exception of \<open>x.push(row)\<close> when \<open>x.push\<close> is not a function.\<close>

datatype js_error = TypeError

text \<open>
  \<open>Object.prototype\<close> and the objects it holds are shared by the whole program and are
  no part of the component. The loop reaches them when a label names an inherited
  member, and which members a built-in object has differs between runtimes. What the
  runtime does there is therefore a parameter of the model, over a type \<open>'h\<close> of states
  of the built-in objects:
  \<^item> \<open>storeInherited b row\<close>: lines 179--182 for a row whose \<open>grouped[row.day]\<close> is an
    inherited member and not an own entry, so that the reads, the assignment and the
    \<open>push\<close> go to that member: the exception raised, or the next state;
  \<^item> \<open>added h name\<close>: whether in state \<open>h\<close> a plain object inherits a member of that
    name which such a row has stored in \<open>Object.prototype\<close>;
  \<^item> \<open>pushAdded h row\<close>: line 182 when \<open>grouped[row.day]\<close> is an own entry and
    \<open>[row.time]\<close> on it is such a stored member: the exception raised, or the next
    state.
  The built-in objects are \<open>Pristine\<close>, as the runtime provides them, when the function
  is called, and \<open>Changed h\<close> once a row has gone through \<open>storeInherited\<close>.
\<close>

datatype 'h builtins = Pristine | Changed 'h

record 'h Runtime =
  storeInherited :: "'h builtins \<Rightarrow> TimetableRow \<Rightarrow> js_error + 'h"
  added :: "'h \<Rightarrow> string \<Rightarrow> bool"
  pushAdded :: "'h \<Rightarrow> TimetableRow \<Rightarrow> js_error + 'h"

definition inheritsAdded :: "'h Runtime \<Rightarrow> 'h builtins \<Rightarrow> string \<Rightarrow> bool" where
  "inheritsAdded rt b name = (case b of Pristine \<Rightarrow> False | Changed h \<Rightarrow> added rt h name)"

text \<open>
  Lines 179--182 when \<open>grouped[row.day]\<close> is the own entry \<open>inner\<close>.
  \<open>!grouped[row.day][row.time]\<close>: an own entry is an array, which is truthy, also when
  empty. Without an own entry the read falls through to \<open>Object.prototype\<close>. One of its
  standard members is truthy and is no array, so that line 180 is skipped and \<open>push\<close>
  raises \<open>TypeError\<close>; a stored member is truthy too and receives the \<open>push\<close>; for any
  other name the read is \<open>undefined\<close> and line 180 creates the own array.
\<close>

definition groupTime ::
  "'h Runtime \<Rightarrow> WeeklyGrid \<Rightarrow> 'h builtins \<Rightarrow> (string \<rightharpoonup> TimetableRow list) \<Rightarrow> TimetableRow
     \<Rightarrow> js_error + WeeklyGrid \<times> 'h builtins" where
  "groupTime rt grouped b inner row =
     (case inner (time row) of
        Some slots \<Rightarrow> Inr (grouped(day row \<mapsto> inner(time row \<mapsto> slots @ [row])), b)
      | None \<Rightarrow>
          if time row \<in> set objectPrototypeNames then Inl TypeError
          else
            (case b of
               Pristine \<Rightarrow> Inr (grouped(day row \<mapsto> inner(time row \<mapsto> [row])), b)
             | Changed h \<Rightarrow>
                 if added rt h (time row)
                 then (case pushAdded rt h row of
                         Inl e \<Rightarrow> Inl e
                       | Inr h' \<Rightarrow> Inr (grouped(day row \<mapsto> inner), Changed h'))
                 else Inr (grouped(day row \<mapsto> inner(time row \<mapsto> [row])), b)))"

text \<open>
  The body of the \<open>forEach\<close> callback (lines 176--182).
  \<open>!grouped[row.day]\<close>: an own entry is an object, which is truthy. Without an own entry
  the read falls through to \<open>Object.prototype\<close>: a standard or a stored member is
  truthy, line 177 is skipped and the rest of the body works on that member; for any
  other name the read is \<open>undefined\<close> and line 177 creates the own entry \<open>{}\<close>.
\<close>

definition groupRow ::
  "'h Runtime \<Rightarrow> WeeklyGrid \<times> 'h builtins \<Rightarrow> TimetableRow
     \<Rightarrow> js_error + WeeklyGrid \<times> 'h builtins" where
  "groupRow rt st row =
     (case st of (grouped, b) \<Rightarrow>
        (case grouped (day row) of
           Some inner \<Rightarrow> groupTime rt grouped b inner row
         | None \<Rightarrow>
             if day row \<in> set objectPrototypeNames \<or> inheritsAdded rt b (day row)
             then (case storeInherited rt b row of
                     Inl e \<Rightarrow> Inl e
                   | Inr h' \<Rightarrow> Inr (grouped, Changed h'))
             else groupTime rt grouped b Map.empty row))"

text \<open>\<open>timetableData.forEach\<close>: the rows in order; an exception ends the loop.\<close>

fun forEachRow ::
  "'h Runtime \<Rightarrow> WeeklyGrid \<times> 'h builtins \<Rightarrow> TimetableRow list
     \<Rightarrow> js_error + WeeklyGrid \<times> 'h builtins" where
  "forEachRow rt st [] = Inr st"
| "forEachRow rt st (row # rest) =
     (case groupRow rt st row of
        Inl e \<Rightarrow> Inl e
      | Inr st' \<Rightarrow> forEachRow rt st' rest)"

text \<open>The function returns \<open>grouped\<close>, that is its own entries.\<close>

definition groupTimetableByDayAndTime ::
  "'h Runtime \<Rightarrow> TimetableRow list \<Rightarrow> js_error + WeeklyGrid" where
  "groupTimetableByDayAndTime rt timetableData =
     (case forEachRow rt (Map.empty, Pristine) timetableData of
        Inl e \<Rightarrow> Inl e
      | Inr (grouped, b) \<Rightarrow> Inr grouped)"

text \<open>
  Reading the result, \<open>grouped[d][t]\<close> on own entries: the rows under a day and a time,
  an absent key holding none.
\<close>

abbreviation slotsAt :: "WeeklyGrid \<Rightarrow> string \<Rightarrow> string \<Rightarrow> TimetableRow list" where
  "slotsAt grouped d t \<equiv>
     (case grouped d of
        None \<Rightarrow> []
      | Some inner \<Rightarrow> (case inner t of None \<Rightarrow> [] | Some slots \<Rightarrow> slots))"

section \<open>The rendered grid\<close>

text \<open>
  One body cell of the table (lines 414--545), reduced to what it shows: the lunch
  block, the free-period block, or a class block with its main slot, the
  \<open>+n more\<close> badge and the \<open>Multiple Sessions\<close> list of its dialog (both only when
  \<open>daySlots.length > 1\<close>).
\<close>

datatype Cell =
    LunchBreak
  | FreePeriod
  | ClassCell (primary: TimetableRow) (moreBadge: "nat option")
      (multipleSessions: "string list option")

text \<open>One line of the list: \<open>{slot.courseName} - {slot.faculty} ({slot.classBatch})\<close>.\<close>

definition sessionLine :: "TimetableRow \<Rightarrow> string" where
  "sessionLine slot = courseName slot @ '' - '' @ faculty slot @ '' ('' @ classBatch slot @ '')''"

definition renderCell :: "TimetableRow list \<Rightarrow> string \<Rightarrow> string \<Rightarrow> Cell" where
  "renderCell timetableData d t =
     (let daySlots = filter (\<lambda>row. day row = d \<and> time row = t) timetableData
      in if t = ''12:00-1:00'' then LunchBreak
         else (case daySlots of
                 [] \<Rightarrow> FreePeriod
               | mainSlot # _ \<Rightarrow>
                   ClassCell mainSlot
                     (if length daySlots > 1 then Some (length daySlots - 1) else None)
                     (if length daySlots > 1 then Some (map sessionLine daySlots) else None)))"

text \<open>The table body: one row per time slot, its label and one cell per day.\<close>

definition renderTable :: "TimetableRow list \<Rightarrow> (string \<times> Cell list) list" where
  "renderTable timetableData =
     map (\<lambda>t. (if t = ''12:00-1:00'' then ''LUNCH'' else t,
                map (\<lambda>d. renderCell timetableData d t) days))
       timeSlots"

section \<open>\<open>loadTimetables\<close>\<close>

text \<open>
  The component state that \<open>loadTimetables\<close> writes, and the toasts it raises. The
  awaited call to \<open>DataImportService.getStoredTimetables\<close> either resolves to a result
  object or rejects; its outcome is an argument of the model.
\<close>

record ViewState =
  timetables :: "StoredTimetable list"
  selectedTimetable :: "StoredTimetable option"
  toasts :: "string list"

record ApiResult =
  success :: bool
  data :: "StoredTimetable list"
  error :: "string option"

datatype Fetched = Resolved ApiResult | Rejected

definition loadTimetables :: "Fetched \<Rightarrow> ViewState \<Rightarrow> ViewState" where
  "loadTimetables fetched st =
     (case fetched of
        Resolved result \<Rightarrow>
          if success result then
            (let st1 = st\<lparr>timetables := data result\<rparr>
             in if length (data result) > 0
                then st1\<lparr>selectedTimetable := Some (data result ! 0)\<rparr>
                else st1\<lparr>selectedTimetable := None\<rparr>)
          else st\<lparr>toasts := toasts st @
                 [case error result of
                    None \<Rightarrow> ''Failed to load timetables''
                  | Some e \<Rightarrow> if e = [] then ''Failed to load timetables'' else e]\<rparr>
      | Rejected \<Rightarrow> st\<lparr>toasts := toasts st @ [''Failed to load timetables'']\<rparr>)"

section \<open>The query representation and the filter handlers\<close>

text \<open>
  A \<open>URLSearchParams\<close> object is an ordered list of name-value pairs in which a name
  may occur more than once. \<open>new URLSearchParams(searchParams.toString())\<close> serialises
  the list and parses it again, which gives a fresh object with the same pairs.
\<close>

type_synonym URLSearchParams = "(string \<times> string) list"

definition copyParams :: "URLSearchParams \<Rightarrow> URLSearchParams" where
  "copyParams searchParams = searchParams"

text \<open>\<open>delete(name)\<close> removes every pair of that name.\<close>

definition deleteParam :: "string \<Rightarrow> URLSearchParams \<Rightarrow> URLSearchParams" where
  "deleteParam name params = filter (\<lambda>p. fst p \<noteq> name) params"

text \<open>
  \<open>set(name, value)\<close> overwrites the first pair of that name and removes the others,
  or appends a new pair when there is none.
\<close>

fun setParam :: "string \<Rightarrow> string \<Rightarrow> URLSearchParams \<Rightarrow> URLSearchParams" where
  "setParam name v [] = [(name, v)]"
| "setParam name v (p # params) =
     (if fst p = name then (name, v) # deleteParam name params
      else p # setParam name v params)"

text \<open>\<open>get(name)\<close> is the value of the first pair of that name, or \<open>null\<close>.\<close>

definition getParam :: "string \<Rightarrow> URLSearchParams \<Rightarrow> string option" where
  "getParam name params = map_of params name"

definition getAll :: "string \<Rightarrow> URLSearchParams \<Rightarrow> string list" where
  "getAll name params = map snd (filter (\<lambda>p. fst p = name) params)"

text \<open>
  The handlers end in \<open>setSearchParams(params)\<close>: the list they build is the next
  query representation, which the model returns.
\<close>

definition handleBranchChange :: "string \<Rightarrow> URLSearchParams \<Rightarrow> URLSearchParams" where
  "handleBranchChange newBranch searchParams =
     (let params = copyParams searchParams
      in if newBranch = ''all'' then deleteParam ''branch'' params
         else setParam ''branch'' newBranch params)"

definition handleDivisionChange :: "string \<Rightarrow> URLSearchParams \<Rightarrow> URLSearchParams" where
  "handleDivisionChange newDivision searchParams =
     (let params = copyParams searchParams
      in if newDivision = ''all'' then deleteParam ''division'' params
         else setParam ''division'' newDivision params)"

text \<open>\<open>searchParams.get('branch') || 'all'\<close> (line 44) and its twin (line 45).\<close>

definition currentFilter :: "string \<Rightarrow> URLSearchParams \<Rightarrow> string" where
  "currentFilter name searchParams =
     (case getParam name searchParams of
        None \<Rightarrow> ''all''
      | Some v \<Rightarrow> if v = [] then ''all'' else v)"

section \<open>Sample inputs\<close>

text \<open>A stored record holding the given rows, every cell present.\<close>

definition recordOf :: "string list list \<Rightarrow> StoredTimetable option" where
  "recordOf rs =
     Some \<lparr> filename = ''tt.json'', branch = ''CS'', division = ''A'', year = ''2'',
            generatedAt = ''2025-01-01'',
            timetable = Some \<lparr> headers = [], rows = map (map Some) rs \<rparr> \<rparr>"

section \<open>Facts about the string operations\<close>

lemma replaceMarker_nonstar:
  "b \<noteq> CHR ''*'' \<Longrightarrow> replaceMarker (b # cs) = b # replaceMarker cs"
  by (cases cs) simp_all

lemma prefix_marker:
  "prefix ''**'' xs \<longleftrightarrow> (\<exists>cs. xs = CHR ''*'' # CHR ''*'' # cs)"
  by (auto simp: prefix_def)

lemma prefix_marker_Cons:
  "prefix ''**'' (a # b # cs) \<longleftrightarrow> a = CHR ''*'' \<and> b = CHR ''*''"
  by auto

lemma replaceMarker_no_marker: "\<not> sublist ''**'' (replaceMarker s)"
proof (induction s rule: replaceMarker.induct)
  case (1 a b cs)
  show ?case
  proof (cases "a = CHR ''*'' \<and> b = CHR ''*''")
    case True
    with 1 show ?thesis by simp
  next
    case False
    with 1 have ih: "\<not> sublist ''**'' (replaceMarker (b # cs))" by simp
    have "\<not> prefix ''**'' (a # replaceMarker (b # cs))"
    proof (cases "a = CHR ''*''")
      case True
      with False have "b \<noteq> CHR ''*''" by simp
      then have "replaceMarker (b # cs) = b # replaceMarker cs"
        by (rule replaceMarker_nonstar)
      with \<open>b \<noteq> CHR ''*''\<close> show ?thesis by (simp add: prefix_marker_Cons)
    next
      case False
      then show ?thesis by (auto simp: prefix_marker)
    qed
    with ih False show ?thesis by (auto simp: sublist_Cons_right)
  qed
qed (simp_all add: sublist_Cons_right prefix_marker)

lemma replaceMarker_keeps_others:
  "filter (\<lambda>c. c \<noteq> CHR ''*'') (replaceMarker s) = filter (\<lambda>c. c \<noteq> CHR ''*'') s"
  by (induction s rule: replaceMarker.induct) auto

lemma replaceMarker_id: "\<not> sublist ''**'' s \<Longrightarrow> replaceMarker s = s"
proof (induction s rule: replaceMarker.induct)
  case (1 a b cs)
  from 1(3) have np: "\<not> prefix ''**'' (a # b # cs)" and ns: "\<not> sublist ''**'' (b # cs)"
    by (simp_all add: sublist_Cons_right)
  from np have F: "\<not> (a = CHR ''*'' \<and> b = CHR ''*'')" by auto
  from 1(2)[OF F ns] F show ?case by auto
qed simp_all

lemma trim_decomp:
  "\<exists>pre suf. s = pre @ trim s @ suf \<and> list_all isWhiteSpace pre \<and> list_all isWhiteSpace suf"
proof -
  let ?a = "takeWhile isWhiteSpace s"
  let ?m = "dropWhile isWhiteSpace s"
  let ?b = "takeWhile isWhiteSpace (rev ?m)"
  have "rev (?b @ dropWhile isWhiteSpace (rev ?m)) = rev (rev ?m)"
    by (simp only: takeWhile_dropWhile_id)
  then have m: "?m = trim s @ rev ?b" by (simp only: trim_def rev_append rev_rev_ident)
  have "s = ?a @ ?m" by simp
  with m have "s = ?a @ trim s @ rev ?b" by simp
  moreover have "list_all isWhiteSpace ?a" by (simp add: list_all_iff) (metis set_takeWhileD)
  moreover have "list_all isWhiteSpace (rev ?b)" by (simp add: list_all_iff) (metis set_takeWhileD)
  ultimately show ?thesis by blast
qed

lemma trim_ends:
  "trim s = [] \<or> (\<not> isWhiteSpace (hd (trim s)) \<and> \<not> isWhiteSpace (last (trim s)))"
proof (cases "trim s = []")
  case True then show ?thesis by simp
next
  case False
  let ?m = "dropWhile isWhiteSpace s"
  let ?y = "dropWhile isWhiteSpace (rev ?m)"
  from False have y: "?y \<noteq> []" by (simp add: trim_def)
  then have m: "?m \<noteq> []" by (metis dropWhile.simps(1) rev.simps(1))
  have l: "\<not> isWhiteSpace (last (trim s))"
    using y by (simp add: trim_def last_rev hd_dropWhile)
  have "hd (trim s) = last ?y" using y by (simp add: trim_def hd_rev)
  also have "\<dots> = last (rev ?m)"
    using y by (metis last_appendR takeWhile_dropWhile_id)
  also have "\<dots> = hd ?m" using m by (simp add: last_rev)
  finally have "\<not> isWhiteSpace (hd (trim s))" using m by (simp add: hd_dropWhile)
  with l show ?thesis by simp
qed

lemma sublist_trim: "sublist (trim s) s"
  using trim_decomp[of s] unfolding sublist_def by metis

section \<open>The row parser\<close>

text \<open>
  Claim C4. The row parser is total: for every raw row, whatever its length and whichever
  cells are absent, it returns one entry. A cell that is missing or undefined gives the
  empty string and a cell that is present is taken as it is. The day is the day cell with
  every occurrence of the marker \<open>**\<close> deleted (no marker is left, no other character is
  touched, a text without marker is unchanged) and the surrounding white space trimmed
  (only white space is cut off, and none is left at either end). The row
  \<open>["**Monday**", "9:00-10:00", "B1", "Data Structures", "Dr. Rao", "Room 101"]\<close> parses
  to the entry with day \<open>Monday\<close> and the other five cells unchanged; the source also sets
  the optional field \<open>division\<close> of every entry to the empty string.
\<close>

theorem parseRow_total_and_clean:
  "parseRow row =
      \<lparr> day = trim (replaceMarker (orEmpty (index row 0))),
        time = orEmpty (index row 1),
        row_division = Some [],
        classBatch = orEmpty (index row 2),
        courseName = orEmpty (index row 3),
        faculty = orEmpty (index row 4),
        venue = orEmpty (index row 5) \<rparr>
   \<and> (length row \<le> i \<or> row ! i = None \<longrightarrow> orEmpty (index row i) = [])
   \<and> (i < length row \<and> row ! i = Some c \<longrightarrow> orEmpty (index row i) = c)
   \<and> \<not> sublist ''**'' (replaceMarker s)
   \<and> filter (\<lambda>c. c \<noteq> CHR ''*'') (replaceMarker s) = filter (\<lambda>c. c \<noteq> CHR ''*'') s
   \<and> (\<not> sublist ''**'' s \<longrightarrow> replaceMarker s = s)
   \<and> (\<exists>pre suf. s = pre @ trim s @ suf \<and> list_all isWhiteSpace pre \<and> list_all isWhiteSpace suf)
   \<and> (trim s = [] \<or> \<not> isWhiteSpace (hd (trim s)) \<and> \<not> isWhiteSpace (last (trim s)))
   \<and> \<not> sublist ''**'' (day (parseRow row))
   \<and> parseRow [] = \<lparr> day = [], time = [], row_division = Some [], classBatch = [],
           courseName = [], faculty = [], venue = [] \<rparr>
   \<and> parseRow (map Some [''**Monday**'', ''9:00-10:00'', ''B1'', ''Data Structures'', ''Dr. Rao'',
                          ''Room 101''])
       = \<lparr> day = ''Monday'', time = ''9:00-10:00'', row_division = Some [], classBatch = ''B1'',
           courseName = ''Data Structures'', faculty = ''Dr. Rao'', venue = ''Room 101'' \<rparr>"
proof -
  have f: "parseRow row =
      \<lparr> day = trim (replaceMarker (orEmpty (index row 0))),
        time = orEmpty (index row 1),
        row_division = Some [],
        classBatch = orEmpty (index row 2),
        courseName = orEmpty (index row 3),
        faculty = orEmpty (index row 4),
        venue = orEmpty (index row 5) \<rparr>"
    by (simp add: parseRow_def)
  have m: "length row \<le> i \<or> row ! i = None \<longrightarrow> orEmpty (index row i) = []"
    by (auto simp: index_def orEmpty_def)
  have k: "i < length row \<and> row ! i = Some c \<longrightarrow> orEmpty (index row i) = c"
    by (simp add: index_def orEmpty_def)
  have "sublist (trim (replaceMarker (orEmpty (index row 0)))) (replaceMarker (orEmpty (index row 0)))"
    by (rule sublist_trim)
  then have d: "\<not> sublist ''**'' (day (parseRow row))"
    using replaceMarker_no_marker [of "orEmpty (index row 0)"]
    by (metis f sublist_order.order_trans TimetableRow.select_convs(1))
  have e: "parseRow (map Some [''**Monday**'', ''9:00-10:00'', ''B1'', ''Data Structures'', ''Dr. Rao'',
                          ''Room 101''])
       = \<lparr> day = ''Monday'', time = ''9:00-10:00'', row_division = Some [], classBatch = ''B1'',
           courseName = ''Data Structures'', faculty = ''Dr. Rao'', venue = ''Room 101'' \<rparr>"
    by (simp add: parseRow_def index_def orEmpty_def trim_def isWhiteSpace_def)
  have n: "parseRow [] = \<lparr> day = [], time = [], row_division = Some [], classBatch = [],
           courseName = [], faculty = [], venue = [] \<rparr>"
    by (simp add: parseRow_def index_def orEmpty_def trim_def)
  from f m k d e n replaceMarker_no_marker [of s] replaceMarker_keeps_others [of s]
    replaceMarker_id [of s] trim_decomp [of s] trim_ends [of s]
  show ?thesis by blast
qed

theorem parseRow_total_and_clean_witness:
  "parseRow [Some '' **Tuesday** '', None, Some ''B2'']
     = \<lparr> day = ''Tuesday'', time = [], row_division = Some [], classBatch = ''B2'',
         courseName = [], faculty = [], venue = [] \<rparr>
   \<and> orEmpty (index [Some '' **Tuesday** '', None, Some ''B2''] 1) = []
   \<and> orEmpty (index [Some '' **Tuesday** '', None, Some ''B2''] 2) = ''B2''
   \<and> replaceMarker ''Tuesday'' = ''Tuesday''"
proof -
  have h: "\<not> sublist ''**'' ''Tuesday''"
    by (simp add: sublist_Cons_right)
  from parseRow_total_and_clean
         [where row = "[Some '' **Tuesday** '', None, Some ''B2'']" and i = 1 and s = "''Tuesday''"] h
  have a: "orEmpty (index [Some '' **Tuesday** '', None, Some ''B2''] 1) = []
           \<and> replaceMarker ''Tuesday'' = ''Tuesday''"
    by simp
  from parseRow_total_and_clean
         [where row = "[Some '' **Tuesday** '', None, Some ''B2'']" and i = 2 and c = "''B2''"]
  have b: "orEmpty (index [Some '' **Tuesday** '', None, Some ''B2''] 2) = ''B2''"
    by simp
  have c: "parseRow [Some '' **Tuesday** '', None, Some ''B2'']
     = \<lparr> day = ''Tuesday'', time = [], row_division = Some [], classBatch = ''B2'',
         courseName = [], faculty = [], venue = [] \<rparr>"
    by (simp add: parseRow_def index_def orEmpty_def trim_def isWhiteSpace_def)
  from a b c show ?thesis by simp
qed

section \<open>The entry filter\<close>

lemma count_list_entryFilter:
  "count_list (entryFilter parsed) e = (if keepRow e then count_list parsed e else 0)"
  by (induction parsed) (auto simp: entryFilter_def)

text \<open>
  Claim C8 as stated fails in its clause that only the listed exclusions are removed
  (course name empty or \<open>LUNCH\<close>, day empty or \<open>ALL\<close>, time the lunch label). The filter
  also tests \<open>row.courseName.trim() !== ''\<close>, so a row whose course name is blank is
  removed although its course name is not empty and it meets no other listed condition.
  A class row at \<open>1:00-2:00\<close> is removed as well, through the literal of line 166 that
  claim C1 is about.
\<close>

theorem entryFilter_drops_unlisted_rows:
  "entryFilter
     [parseRow (map Some [''Monday'', ''9:00-10:00'', ''B1'', ''   '', ''Dr. Rao'', ''Room 101''])]
     = []
   \<and> parseRow (map Some [''Monday'', ''9:00-10:00'', ''B1'', ''   '', ''Dr. Rao'', ''Room 101''])
       = \<lparr> day = ''Monday'', time = ''9:00-10:00'', row_division = Some [], classBatch = ''B1'',
           courseName = ''   '', faculty = ''Dr. Rao'', venue = ''Room 101'' \<rparr>
   \<and> ''   '' \<noteq> ([] :: string) \<and> ''   '' \<noteq> ''LUNCH''
   \<and> ''Monday'' \<noteq> ([] :: string) \<and> ''Monday'' \<noteq> ''ALL''
   \<and> ''9:00-10:00'' \<noteq> ''12:00-1:00'' \<and> ''9:00-10:00'' \<noteq> ''1:00-2:00''
   \<and> entryFilter
       [parseRow (map Some [''Monday'', ''1:00-2:00'', ''B1'', ''Maths'', ''Dr. Rao'', ''Room 101''])]
     = []
   \<and> parseRow (map Some [''Monday'', ''1:00-2:00'', ''B1'', ''Maths'', ''Dr. Rao'', ''Room 101''])
       = \<lparr> day = ''Monday'', time = ''1:00-2:00'', row_division = Some [], classBatch = ''B1'',
           courseName = ''Maths'', faculty = ''Dr. Rao'', venue = ''Room 101'' \<rparr>
   \<and> ''Maths'' \<noteq> ([] :: string) \<and> ''Maths'' \<noteq> ''LUNCH'' \<and> ''1:00-2:00'' \<noteq> ''12:00-1:00''"
  by (simp add: entryFilter_def keepRow_def parseRow_def index_def orEmpty_def trim_def
        isWhiteSpace_def)

text \<open>
  Claim C8, amended. The entry filter is pure and keeps the order: its output is a
  subsequence of its input, an entry keeps all of its occurrences or loses all of them,
  and filtering a concatenation is the concatenation of the filtered parts. An entry is
  removed when its course name is empty, blank or \<open>LUNCH\<close>, or its day is empty or \<open>ALL\<close>;
  an entry that meets none of these conditions and whose time is neither \<open>12:00-1:00\<close>
  nor \<open>1:00-2:00\<close> is kept. The parsed form of the raw row
  \<open>["ALL", "1:00-2:00", "", "LUNCH", "", ""]\<close> is removed.
\<close>

theorem entryFilter_order_preserving:
  "subseq (entryFilter parsed) parsed
   \<and> (count_list (entryFilter parsed) e = count_list parsed e
        \<or> count_list (entryFilter parsed) e = 0)
   \<and> entryFilter (xs @ ys) = entryFilter xs @ entryFilter ys
   \<and> (courseName e = [] \<or> courseName e = ''LUNCH'' \<or> trim (courseName e) = []
        \<or> day e = [] \<or> day e = ''ALL''
        \<longrightarrow> count_list (entryFilter parsed) e = 0)
   \<and> (courseName k \<noteq> [] \<and> courseName k \<noteq> ''LUNCH'' \<and> trim (courseName k) \<noteq> []
        \<and> day k \<noteq> [] \<and> day k \<noteq> ''ALL''
        \<and> time k \<noteq> ''12:00-1:00'' \<and> time k \<noteq> ''1:00-2:00''
        \<longrightarrow> count_list (entryFilter parsed) k = count_list parsed k)
   \<and> subseq (parseSelectedTimetable (Some \<lparr>filename = fn, branch = br, division = dv, year = yr,
                generatedAt = ga, timetable = Some tb\<rparr>))
        (map parseRow (rows tb))
   \<and> entryFilter [parseRow (map Some [''ALL'', ''1:00-2:00'', '''', ''LUNCH'', '''', ''''])] = []
   \<and> parseSelectedTimetable (recordOf [[''ALL'', ''1:00-2:00'', '''', ''LUNCH'', '''', '''']]) = []"
proof -
  have a: "subseq (entryFilter parsed) parsed" by (simp add: entryFilter_def)
  have b: "count_list (entryFilter parsed) e = count_list parsed e
        \<or> count_list (entryFilter parsed) e = 0"
    by (simp add: count_list_entryFilter)
  have c: "entryFilter (xs @ ys) = entryFilter xs @ entryFilter ys" by (simp add: entryFilter_def)
  have d: "courseName e = [] \<or> courseName e = ''LUNCH'' \<or> trim (courseName e) = []
        \<or> day e = [] \<or> day e = ''ALL''
        \<longrightarrow> count_list (entryFilter parsed) e = 0"
    by (auto simp: count_list_entryFilter keepRow_def)
  have k: "courseName k \<noteq> [] \<and> courseName k \<noteq> ''LUNCH'' \<and> trim (courseName k) \<noteq> []
        \<and> day k \<noteq> [] \<and> day k \<noteq> ''ALL''
        \<and> time k \<noteq> ''12:00-1:00'' \<and> time k \<noteq> ''1:00-2:00''
        \<longrightarrow> count_list (entryFilter parsed) k = count_list parsed k"
    by (simp add: count_list_entryFilter keepRow_def)
  have f: "subseq (parseSelectedTimetable (Some \<lparr>filename = fn, branch = br, division = dv, year = yr,
                generatedAt = ga, timetable = Some tb\<rparr>))
        (map parseRow (rows tb))"
    by (simp add: parseSelectedTimetable_def entryFilter_def)
  have g: "entryFilter [parseRow (map Some [''ALL'', ''1:00-2:00'', '''', ''LUNCH'', '''', ''''])] = []"
    by (simp add: entryFilter_def keepRow_def parseRow_def index_def orEmpty_def)
  have h: "parseSelectedTimetable (recordOf [[''ALL'', ''1:00-2:00'', '''', ''LUNCH'', '''', '''']]) = []"
    by (simp add: parseSelectedTimetable_def recordOf_def entryFilter_def keepRow_def parseRow_def
          index_def orEmpty_def)
  from a b c d k f g h show ?thesis by blast
qed

theorem entryFilter_order_preserving_witness:
  "count_list
     (entryFilter
        [\<lparr> day = ''Monday'', time = ''9:00-10:00'', row_division = Some [], classBatch = ''B1'',
           courseName = ''Maths'', faculty = ''Dr. Rao'', venue = ''Room 101'' \<rparr>,
         \<lparr> day = ''Monday'', time = ''9:00-10:00'', row_division = Some [], classBatch = ''B1'',
           courseName = ''   '', faculty = ''Dr. Rao'', venue = ''Room 101'' \<rparr>,
         \<lparr> day = ''Monday'', time = ''9:00-10:00'', row_division = Some [], classBatch = ''B1'',
           courseName = ''Maths'', faculty = ''Dr. Rao'', venue = ''Room 101'' \<rparr>])
     \<lparr> day = ''Monday'', time = ''9:00-10:00'', row_division = Some [], classBatch = ''B1'',
        courseName = ''   '', faculty = ''Dr. Rao'', venue = ''Room 101'' \<rparr>
     = 0
   \<and> count_list
     (entryFilter
        [\<lparr> day = ''Monday'', time = ''9:00-10:00'', row_division = Some [], classBatch = ''B1'',
           courseName = ''Maths'', faculty = ''Dr. Rao'', venue = ''Room 101'' \<rparr>,
         \<lparr> day = ''Monday'', time = ''9:00-10:00'', row_division = Some [], classBatch = ''B1'',
           courseName = ''   '', faculty = ''Dr. Rao'', venue = ''Room 101'' \<rparr>,
         \<lparr> day = ''Monday'', time = ''9:00-10:00'', row_division = Some [], classBatch = ''B1'',
           courseName = ''Maths'', faculty = ''Dr. Rao'', venue = ''Room 101'' \<rparr>])
     \<lparr> day = ''Monday'', time = ''9:00-10:00'', row_division = Some [], classBatch = ''B1'',
        courseName = ''Maths'', faculty = ''Dr. Rao'', venue = ''Room 101'' \<rparr>
     = 2"
proof -
  let ?K = "\<lparr> day = ''Monday'', time = ''9:00-10:00'', row_division = Some [], classBatch = ''B1'',
        courseName = ''Maths'', faculty = ''Dr. Rao'', venue = ''Room 101'' \<rparr>"
  let ?B = "\<lparr> day = ''Monday'', time = ''9:00-10:00'', row_division = Some [], classBatch = ''B1'',
        courseName = ''   '', faculty = ''Dr. Rao'', venue = ''Room 101'' \<rparr>"
  have hb: "courseName ?B = [] \<or> courseName ?B = ''LUNCH'' \<or> trim (courseName ?B) = []
        \<or> day ?B = [] \<or> day ?B = ''ALL''"
    by (simp add: trim_def isWhiteSpace_def)
  have hk: "courseName ?K \<noteq> [] \<and> courseName ?K \<noteq> ''LUNCH'' \<and> trim (courseName ?K) \<noteq> []
        \<and> day ?K \<noteq> [] \<and> day ?K \<noteq> ''ALL''
        \<and> time ?K \<noteq> ''12:00-1:00'' \<and> time ?K \<noteq> ''1:00-2:00''"
    by (simp add: trim_def isWhiteSpace_def)
  from entryFilter_order_preserving [where parsed = "[?K, ?B, ?K]" and e = ?B and k = ?K] hb hk
  have "count_list (entryFilter [?K, ?B, ?K]) ?B = 0
      \<and> count_list (entryFilter [?K, ?B, ?K]) ?K = count_list [?K, ?B, ?K] ?K"
    by blast
  then show ?thesis by simp
qed

text \<open>
  Claim C1, evaluated on the source. The filter compares the time with \<open>1:00-2:00\<close>
  (line 166, commented as the lunch time), whereas the grid's lunch slot is \<open>12:00-1:00\<close>
  (lines 405 and 420). A class row at \<open>12:00-1:00\<close> therefore passes the filter.
\<close>

theorem parseSelectedTimetable_keeps_lunch_slot_row:
  "parseSelectedTimetable
     (recordOf [[''Monday'', ''12:00-1:00'', ''B1'', ''Maths'', ''Dr. Rao'', ''Room 101'']])
   = [\<lparr> day = ''Monday'', time = ''12:00-1:00'', row_division = Some [], classBatch = ''B1'',
         courseName = ''Maths'', faculty = ''Dr. Rao'', venue = ''Room 101'' \<rparr>]"
  by (simp add: parseSelectedTimetable_def recordOf_def entryFilter_def keepRow_def parseRow_def
        index_def orEmpty_def trim_def isWhiteSpace_def)

text \<open>What the filter does guarantee about the time: the literal it tests never survives.\<close>

lemma parseSelectedTimetable_time:
  "e \<in> set (parseSelectedTimetable selected) \<Longrightarrow> time e \<noteq> ''1:00-2:00''"
  by (auto simp: parseSelectedTimetable_def entryFilter_def keepRow_def split: option.splits)

text \<open>
  Claim C2 as stated fails: the filter tests the day only for being empty or \<open>ALL\<close>, so a
  row whose day is \<open>Saturday\<close> survives although it is none of the five labels of the grid.
\<close>

theorem parseSelectedTimetable_keeps_saturday:
  "parseSelectedTimetable
     (recordOf [[''Saturday'', ''9:00-10:00'', ''B1'', ''Maths'', ''Dr. Rao'', ''Room 101'']])
   = [\<lparr> day = ''Saturday'', time = ''9:00-10:00'', row_division = Some [], classBatch = ''B1'',
         courseName = ''Maths'', faculty = ''Dr. Rao'', venue = ''Room 101'' \<rparr>]
   \<and> ''Saturday'' \<notin> set days"
  by (simp add: days_def parseSelectedTimetable_def recordOf_def entryFilter_def keepRow_def parseRow_def
        index_def orEmpty_def trim_def isWhiteSpace_def)

text \<open>
  Claim C2, amended. For every selected record (or none), every entry in the output of the
  parse-and-filter pass has a day that is not empty and is not the sentinel \<open>ALL\<close>.
\<close>

theorem parseSelectedTimetable_day_not_sentinel:
  "\<forall>e\<in>set (parseSelectedTimetable selected). day e \<noteq> [] \<and> day e \<noteq> ''ALL''"
  by (auto simp: parseSelectedTimetable_def entryFilter_def keepRow_def split: option.splits)

theorem parseSelectedTimetable_day_not_sentinel_witness:
  "parseSelectedTimetable
     (recordOf [[''Saturday'', ''9:00-10:00'', ''B1'', ''Maths'', ''Dr. Rao'', ''Room 101''],
                [''ALL'', ''9:00-10:00'', ''B1'', ''Maths'', ''Dr. Rao'', ''Room 101'']])
   = [\<lparr> day = ''Saturday'', time = ''9:00-10:00'', row_division = Some [], classBatch = ''B1'',
         courseName = ''Maths'', faculty = ''Dr. Rao'', venue = ''Room 101'' \<rparr>]
   \<and> ''Saturday'' \<noteq> [] \<and> ''Saturday'' \<noteq> ''ALL''"
proof -
  let ?sel = "recordOf [[''Saturday'', ''9:00-10:00'', ''B1'', ''Maths'', ''Dr. Rao'', ''Room 101''],
                [''ALL'', ''9:00-10:00'', ''B1'', ''Maths'', ''Dr. Rao'', ''Room 101'']]"
  let ?e = "\<lparr> day = ''Saturday'', time = ''9:00-10:00'', row_division = Some [], classBatch = ''B1'',
         courseName = ''Maths'', faculty = ''Dr. Rao'', venue = ''Room 101'' \<rparr>"
  have p: "parseSelectedTimetable ?sel = [?e]"
    by (simp add: parseSelectedTimetable_def recordOf_def entryFilter_def keepRow_def parseRow_def
        index_def orEmpty_def trim_def isWhiteSpace_def)
  then have "?e \<in> set (parseSelectedTimetable ?sel)" by simp
  with parseSelectedTimetable_day_not_sentinel [of ?sel]
  have "day ?e \<noteq> [] \<and> day ?e \<noteq> ''ALL''" by blast
  with p show ?thesis by simp
qed

section \<open>The rendered grid\<close>

text \<open>
  Claim C3. Whatever entries the grid is given, and also when one of them sits at the lunch
  slot, the cell for the time \<open>12:00-1:00\<close> is the lunch block on every day: never a class
  cell and never a free period. The fourth row of the table is the lunch row with five
  lunch blocks.
\<close>

theorem renderCell_lunch_override:
  "renderCell timetableData d ''12:00-1:00'' = LunchBreak
   \<and> renderTable timetableData ! 3
       = (''LUNCH'', [LunchBreak, LunchBreak, LunchBreak, LunchBreak, LunchBreak])
   \<and> renderCell
        (parseSelectedTimetable
           (recordOf [[''Monday'', ''12:00-1:00'', ''B1'', ''Maths'', ''Dr. Rao'', ''Room 101'']]))
        ''Monday'' ''12:00-1:00'' = LunchBreak"
  by (simp add: renderCell_def renderTable_def timeSlots_def days_def)

text \<open>
  Claim C6. In a cell off the lunch slot that holds more than one entry of the same day and
  time, the main slot is the first of these entries in source order, the badge shows their
  number less one, and the dialog lists one line for each of them, in source order. Two
  rows at Monday \<open>10:00-11:00\<close> with different courses give the first row as main slot, the
  badge \<open>+1 more\<close> and both rows in the list.
\<close>

theorem renderCell_multiple_sessions:
  fixes timetableData :: "TimetableRow list" and d t :: string
  defines "daySlots \<equiv> filter (\<lambda>row. day row = d \<and> time row = t) timetableData"
  assumes "t \<noteq> ''12:00-1:00''" and "1 < length daySlots"
  shows "renderCell timetableData d t
           = ClassCell (hd daySlots) (Some (length daySlots - 1)) (Some (map sessionLine daySlots))
       \<and> find (\<lambda>row. day row = d \<and> time row = t) timetableData = Some (hd daySlots)
       \<and> length (map sessionLine daySlots) = length daySlots
       \<and> set daySlots = {row \<in> set timetableData. day row = d \<and> time row = t}
       \<and> renderCell
            (parseSelectedTimetable (recordOf
               [[''Monday'', ''10:00-11:00'', ''B1'', ''Data Structures'', ''Dr. Rao'', ''Room 101''],
                [''Monday'', ''10:00-11:00'', ''B2'', ''Operating Systems'', ''Dr. Iyer'',
                 ''Room 102'']]))
            ''Monday'' ''10:00-11:00''
           = ClassCell
               \<lparr> day = ''Monday'', time = ''10:00-11:00'', row_division = Some [],
                 classBatch = ''B1'', courseName = ''Data Structures'', faculty = ''Dr. Rao'',
                 venue = ''Room 101'' \<rparr>
               (Some 1)
               (Some [''Data Structures - Dr. Rao (B1)'', ''Operating Systems - Dr. Iyer (B2)''])"
proof -
  from assms(3) obtain mainSlot rest where ds: "daySlots = mainSlot # rest"
    by (cases daySlots) auto
  have f: "find (\<lambda>row. day row = d \<and> time row = t) timetableData = Some (hd daySlots)"
    using ds unfolding daySlots_def
    by (induction timetableData) (auto split: if_splits)
  have r: "renderCell timetableData d t
           = ClassCell (hd daySlots) (Some (length daySlots - 1)) (Some (map sessionLine daySlots))"
    using assms(2,3) ds unfolding renderCell_def daySlots_def [symmetric] by (simp add: Let_def)
  have s: "set daySlots = {row \<in> set timetableData. day row = d \<and> time row = t}"
    unfolding daySlots_def by auto
  have p: "parseSelectedTimetable (recordOf
               [[''Monday'', ''10:00-11:00'', ''B1'', ''Data Structures'', ''Dr. Rao'', ''Room 101''],
                [''Monday'', ''10:00-11:00'', ''B2'', ''Operating Systems'', ''Dr. Iyer'',
                 ''Room 102'']])
       = [\<lparr> day = ''Monday'', time = ''10:00-11:00'', row_division = Some [],
            classBatch = ''B1'', courseName = ''Data Structures'', faculty = ''Dr. Rao'',
            venue = ''Room 101'' \<rparr>,
          \<lparr> day = ''Monday'', time = ''10:00-11:00'', row_division = Some [],
            classBatch = ''B2'', courseName = ''Operating Systems'', faculty = ''Dr. Iyer'',
            venue = ''Room 102'' \<rparr>]"
    by (simp add: parseSelectedTimetable_def recordOf_def entryFilter_def keepRow_def parseRow_def
        index_def orEmpty_def trim_def isWhiteSpace_def)
  have x: "renderCell
            (parseSelectedTimetable (recordOf
               [[''Monday'', ''10:00-11:00'', ''B1'', ''Data Structures'', ''Dr. Rao'', ''Room 101''],
                [''Monday'', ''10:00-11:00'', ''B2'', ''Operating Systems'', ''Dr. Iyer'',
                 ''Room 102'']]))
            ''Monday'' ''10:00-11:00''
           = ClassCell
               \<lparr> day = ''Monday'', time = ''10:00-11:00'', row_division = Some [],
                 classBatch = ''B1'', courseName = ''Data Structures'', faculty = ''Dr. Rao'',
                 venue = ''Room 101'' \<rparr>
               (Some 1)
               (Some [''Data Structures - Dr. Rao (B1)'', ''Operating Systems - Dr. Iyer (B2)''])"
    unfolding p by (simp add: renderCell_def sessionLine_def)
  from r f s x show ?thesis by simp
qed

theorem renderCell_multiple_sessions_witness:
  "renderCell
     [\<lparr> day = ''Monday'', time = ''10:00-11:00'', row_division = Some [], classBatch = ''B1'',
        courseName = ''Data Structures'', faculty = ''Dr. Rao'', venue = ''Room 101'' \<rparr>,
      \<lparr> day = ''Tuesday'', time = ''10:00-11:00'', row_division = Some [], classBatch = ''B1'',
        courseName = ''Networks'', faculty = ''Dr. Sen'', venue = ''Room 103'' \<rparr>,
      \<lparr> day = ''Monday'', time = ''10:00-11:00'', row_division = Some [], classBatch = ''B2'',
        courseName = ''Operating Systems'', faculty = ''Dr. Iyer'', venue = ''Room 102'' \<rparr>]
     ''Monday'' ''10:00-11:00''
   = ClassCell
       \<lparr> day = ''Monday'', time = ''10:00-11:00'', row_division = Some [], classBatch = ''B1'',
         courseName = ''Data Structures'', faculty = ''Dr. Rao'', venue = ''Room 101'' \<rparr>
       (Some 1)
       (Some [''Data Structures - Dr. Rao (B1)'', ''Operating Systems - Dr. Iyer (B2)''])"
  using renderCell_multiple_sessions
    [of "''10:00-11:00''" "''Monday''"
        "[\<lparr> day = ''Monday'', time = ''10:00-11:00'', row_division = Some [], classBatch = ''B1'',
            courseName = ''Data Structures'', faculty = ''Dr. Rao'', venue = ''Room 101'' \<rparr>,
          \<lparr> day = ''Tuesday'', time = ''10:00-11:00'', row_division = Some [], classBatch = ''B1'',
            courseName = ''Networks'', faculty = ''Dr. Sen'', venue = ''Room 103'' \<rparr>,
          \<lparr> day = ''Monday'', time = ''10:00-11:00'', row_division = Some [], classBatch = ''B2'',
            courseName = ''Operating Systems'', faculty = ''Dr. Iyer'', venue = ''Room 102'' \<rparr>]"]
  by (simp add: sessionLine_def)

section \<open>Grouping by day and time\<close>

text \<open>
  Claim C5, evaluated on the source. A row whose time label is the name of a member that
  every object inherits, here \<open>toString\<close>, passes the filter; in the loop the test
  \<open>!grouped[row.day][row.time]\<close> then finds the inherited function, no array is created,
  and \<open>push\<close> raises \<open>TypeError\<close>, so no grid is returned, whatever the runtime does
  with its built-in objects. The cells of the table, which select with
  \<open>row.day === day && row.time === time\<close>, do not have this gap.
\<close>

theorem groupTimetableByDayAndTime_inherited_name:
  "groupTimetableByDayAndTime rt
     (parseSelectedTimetable
        (recordOf [[''Monday'', ''toString'', ''B1'', ''Maths'', ''Dr. Rao'', ''Room 101'']]))
   = Inl TypeError"
  by (simp add: parseSelectedTimetable_def recordOf_def entryFilter_def keepRow_def parseRow_def
        index_def orEmpty_def trim_def isWhiteSpace_def
        groupTimetableByDayAndTime_def groupRow_def groupTime_def inheritsAdded_def
        objectPrototypeNames_def)

text \<open>
  On every input whose labels are no inherited names the loop never leaves its own
  entries; it returns a grid, and the grid is as intended: the rows under a day and a
  time are exactly the rows of that day and time, in source order, and no key holds an
  empty array.
\<close>

lemma groupRow_plain:
  assumes "day row \<notin> set objectPrototypeNames" and "time row \<notin> set objectPrototypeNames"
    and "\<forall>d inner t. grouped d = Some inner \<longrightarrow> inner t \<noteq> Some []"
  shows "\<exists>g. groupRow rt (grouped, Pristine) row = Inr (g, Pristine)
           \<and> (\<forall>d t. slotsAt g d t
                 = (if d = day row \<and> t = time row then slotsAt grouped d t @ [row]
                    else slotsAt grouped d t))
           \<and> (\<forall>d inner t. g d = Some inner \<longrightarrow> inner t \<noteq> Some [])"
proof (cases "grouped (day row)")
  case None
  with assms show ?thesis
    by (auto simp: groupRow_def groupTime_def inheritsAdded_def split: option.splits)
next
  case (Some inner)
  show ?thesis
  proof (cases "inner (time row)")
    case None
    with Some assms show ?thesis
      by (auto simp: groupRow_def groupTime_def inheritsAdded_def split: option.splits)
  next
    case (Some slots)
    with \<open>grouped (day row) = Some inner\<close> assms show ?thesis
      by (auto simp: groupRow_def groupTime_def inheritsAdded_def split: option.splits)
  qed
qed

lemma forEachRow_plain:
  assumes "\<forall>row\<in>set rest. day row \<notin> set objectPrototypeNames \<and> time row \<notin> set objectPrototypeNames"
    and "\<forall>d t. slotsAt grouped d t = filter (\<lambda>row. day row = d \<and> time row = t) seen"
    and "\<forall>d inner t. grouped d = Some inner \<longrightarrow> inner t \<noteq> Some []"
  shows "\<exists>g. forEachRow rt (grouped, Pristine) rest = Inr (g, Pristine)
           \<and> (\<forall>d t. slotsAt g d t = filter (\<lambda>row. day row = d \<and> time row = t) (seen @ rest))
           \<and> (\<forall>d inner t. g d = Some inner \<longrightarrow> inner t \<noteq> Some [])"
  using assms
proof (induction rest arbitrary: grouped seen)
  case Nil
  then show ?case by simp
next
  case (Cons row rest)
  from Cons.prems(1) have p: "day row \<notin> set objectPrototypeNames" "time row \<notin> set objectPrototypeNames"
    by simp_all
  from groupRow_plain [OF p Cons.prems(3), of rt] obtain g1 where
    g1: "groupRow rt (grouped, Pristine) row = Inr (g1, Pristine)"
    and s1: "\<forall>d t. slotsAt g1 d t
                 = (if d = day row \<and> t = time row then slotsAt grouped d t @ [row]
                    else slotsAt grouped d t)"
    and n1: "\<forall>d inner t. g1 d = Some inner \<longrightarrow> inner t \<noteq> Some []"
    by blast
  from s1 Cons.prems(2)
  have i1: "\<forall>d t. slotsAt g1 d t = filter (\<lambda>row. day row = d \<and> time row = t) (seen @ [row])"
    by auto
  from Cons.prems(1) have r: "\<forall>row\<in>set rest. day row \<notin> set objectPrototypeNames \<and> time row \<notin> set objectPrototypeNames"
    by simp
  from Cons.IH [OF r i1 n1] g1 show ?case by simp
qed

lemma groupTimetableByDayAndTime_plain_labels:
  assumes "\<forall>row\<in>set timetableData.
             day row \<notin> set objectPrototypeNames \<and> time row \<notin> set objectPrototypeNames"
  shows "\<exists>grid. groupTimetableByDayAndTime rt timetableData = Inr grid
           \<and> (\<forall>d inner t slots. grid d = Some inner \<and> inner t = Some slots \<longrightarrow>
                  slots = filter (\<lambda>row. day row = d \<and> time row = t) timetableData \<and> slots \<noteq> [])
           \<and> (\<forall>row\<in>set timetableData. \<exists>inner slots.
                  grid (day row) = Some inner \<and> inner (time row) = Some slots \<and> row \<in> set slots)"
proof -
  from forEachRow_plain [of timetableData Map.empty "[]" rt] assms
  obtain grid where g: "forEachRow rt (Map.empty, Pristine) timetableData = Inr (grid, Pristine)"
    and s: "\<forall>d t. slotsAt grid d t = filter (\<lambda>row. day row = d \<and> time row = t) timetableData"
    and n: "\<forall>d inner t. grid d = Some inner \<longrightarrow> inner t \<noteq> Some []"
    by auto
  have a: "\<forall>d inner t slots. grid d = Some inner \<and> inner t = Some slots \<longrightarrow>
                  slots = filter (\<lambda>row. day row = d \<and> time row = t) timetableData \<and> slots \<noteq> []"
  proof (intro allI impI)
    fix d inner t slots
    assume h: "grid d = Some inner \<and> inner t = Some slots"
    then have "slotsAt grid d t = slots" by simp
    with s have "slots = filter (\<lambda>row. day row = d \<and> time row = t) timetableData" by metis
    moreover from h n have "slots \<noteq> []" by blast
    ultimately show "slots = filter (\<lambda>row. day row = d \<and> time row = t) timetableData \<and> slots \<noteq> []" ..
  qed
  have b: "\<forall>row\<in>set timetableData. \<exists>inner slots.
                  grid (day row) = Some inner \<and> inner (time row) = Some slots \<and> row \<in> set slots"
  proof
    fix row assume r: "row \<in> set timetableData"
    then have "row \<in> set (filter (\<lambda>r. day r = day row \<and> time r = time row) timetableData)" by simp
    with s have m: "row \<in> set (slotsAt grid (day row) (time row))" by simp
    then obtain inner where i: "grid (day row) = Some inner"
      by (cases "grid (day row)") auto
    with m obtain slots where "inner (time row) = Some slots" and "row \<in> set slots"
      by (cases "inner (time row)") auto
    with i show "\<exists>inner slots.
                  grid (day row) = Some inner \<and> inner (time row) = Some slots \<and> row \<in> set slots"
      by blast
  qed
  from g a b show ?thesis unfolding groupTimetableByDayAndTime_def by auto
qed

section \<open>Loading the records\<close>

text \<open>
  Claim C7. When the fetch succeeds with a list that is not empty, its first record becomes
  the selected timetable and the list is stored; when it succeeds with the empty list the
  selection is cleared; when it fails, by an unsuccessful result or by a rejected call,
  the stored list and the selection are those from before.
\<close>

theorem loadTimetables_outcomes:
  "selectedTimetable (loadTimetables (Resolved \<lparr>success = True, data = t # ts, error = e\<rparr>) st) = Some t
   \<and> timetables (loadTimetables (Resolved \<lparr>success = True, data = t # ts, error = e\<rparr>) st) = t # ts
   \<and> selectedTimetable (loadTimetables (Resolved \<lparr>success = True, data = [], error = e\<rparr>) st) = None
   \<and> timetables (loadTimetables (Resolved \<lparr>success = True, data = [], error = e\<rparr>) st) = []
   \<and> timetables (loadTimetables (Resolved \<lparr>success = False, data = ds, error = e\<rparr>) st) = timetables st
   \<and> selectedTimetable (loadTimetables (Resolved \<lparr>success = False, data = ds, error = e\<rparr>) st)
       = selectedTimetable st
   \<and> timetables (loadTimetables Rejected st) = timetables st
   \<and> selectedTimetable (loadTimetables Rejected st) = selectedTimetable st"
  by (simp add: loadTimetables_def)

section \<open>The filter handlers\<close>

lemma deleteParam_setParam:
  "deleteParam name (setParam name v params) = deleteParam name params"
  by (induction params) (simp_all add: deleteParam_def)

lemma deleteParam_absent:
  "name \<notin> fst ` set params \<Longrightarrow> deleteParam name params = params"
  by (induction params) (auto simp: deleteParam_def)

lemma getAll_deleteParam: "getAll name (deleteParam name params) = []"
  by (induction params) (simp_all add: getAll_def deleteParam_def)

lemma getAll_setParam: "getAll name (setParam name v params) = [v]"
proof (induction params)
  case Nil
  show ?case by (simp add: getAll_def)
next
  case (Cons p params)
  show ?case
  proof (cases "fst p = name")
    case True
    have "getAll name ((name, v) # deleteParam name params) = v # getAll name (deleteParam name params)"
      by (simp add: getAll_def)
    with True show ?thesis by (simp add: getAll_deleteParam)
  next
    case False
    with Cons show ?thesis by (simp add: getAll_def)
  qed
qed

lemma getAll_other:
  assumes "k \<noteq> name"
  shows "getAll k params = getAll k (deleteParam name params)"
  using assms by (induction params) (auto simp: getAll_def deleteParam_def)

lemma getParam_getAll:
  "getParam k params = (case getAll k params of [] \<Rightarrow> None | v # _ \<Rightarrow> Some v)"
  by (induction params) (auto simp: getParam_def getAll_def)

lemma handleBranchChange_others:
  "deleteParam ''branch'' (handleBranchChange v ps) = deleteParam ''branch'' ps"
  by (simp add: handleBranchChange_def copyParams_def deleteParam_setParam) (simp add: deleteParam_def)

lemma handleDivisionChange_others:
  "deleteParam ''division'' (handleDivisionChange v ps) = deleteParam ''division'' ps"
  by (simp add: handleDivisionChange_def copyParams_def deleteParam_setParam) (simp add: deleteParam_def)

text \<open>
  Claim C9. From a query representation without a \<open>branch\<close> key, changing the branch to a
  value and then to \<open>all\<close> gives back the representation one started from, with no
  \<open>branch\<close> key, so that the branch read from it is the default \<open>all\<close>. A concrete value
  is stored under the key in between, and \<open>all\<close> is never stored: it removes the key.
\<close>

theorem handleBranchChange_round_trip:
  assumes "''branch'' \<notin> fst ` set searchParams"
  shows "handleBranchChange ''all'' (handleBranchChange v searchParams) = searchParams
       \<and> ''branch'' \<notin> fst ` set (handleBranchChange ''all'' (handleBranchChange v searchParams))
       \<and> getParam ''branch'' (handleBranchChange ''all'' (handleBranchChange v searchParams)) = None
       \<and> currentFilter ''branch'' (handleBranchChange ''all'' (handleBranchChange v searchParams)) = ''all''
       \<and> getAll ''branch'' (handleBranchChange v searchParams) = (if v = ''all'' then [] else [v])
       \<and> getAll ''branch'' (handleBranchChange ''all'' anyParams) = []"
proof -
  have rt: "handleBranchChange ''all'' (handleBranchChange v searchParams) = searchParams"
    using assms
    by (simp add: handleBranchChange_def copyParams_def deleteParam_setParam deleteParam_absent)
  have g: "getParam ''branch'' searchParams = None"
    using assms by (simp add: getParam_def map_of_eq_None_iff)
  have a: "getAll ''branch'' (handleBranchChange v searchParams) = (if v = ''all'' then [] else [v])"
    by (simp add: handleBranchChange_def copyParams_def getAll_setParam getAll_deleteParam)
  have b: "getAll ''branch'' (handleBranchChange ''all'' anyParams) = []"
    by (simp add: handleBranchChange_def copyParams_def getAll_deleteParam)
  from rt assms g a b show ?thesis by (simp add: currentFilter_def)
qed

theorem handleBranchChange_round_trip_witness:
  "handleBranchChange ''all'' (handleBranchChange ''CS'' [(''division'', ''A'')]) = [(''division'', ''A'')]
   \<and> getAll ''branch'' (handleBranchChange ''CS'' [(''division'', ''A'')]) = [''CS'']"
  using handleBranchChange_round_trip [of "[(''division'', ''A'')]" "''CS''"]
  by simp

text \<open>
  Claim C10. \<open>handleBranchChange\<close> changes the \<open>branch\<close> key only: the pairs of every other
  name, \<open>division\<close> among them, stay as they were and in their order, and afterwards
  \<open>branch\<close> is absent when the new value is \<open>all\<close> and holds exactly the new value
  otherwise. \<open>handleDivisionChange\<close> does the same for \<open>division\<close>.
\<close>

theorem handlers_frame:
  "filter (\<lambda>p. fst p \<noteq> ''branch'') (handleBranchChange v searchParams)
     = filter (\<lambda>p. fst p \<noteq> ''branch'') searchParams
   \<and> getAll ''branch'' (handleBranchChange v searchParams) = (if v = ''all'' then [] else [v])
   \<and> getAll ''division'' (handleBranchChange v searchParams) = getAll ''division'' searchParams
   \<and> getParam ''division'' (handleBranchChange v searchParams) = getParam ''division'' searchParams
   \<and> filter (\<lambda>p. fst p \<noteq> ''division'') (handleDivisionChange v searchParams)
     = filter (\<lambda>p. fst p \<noteq> ''division'') searchParams
   \<and> getAll ''division'' (handleDivisionChange v searchParams) = (if v = ''all'' then [] else [v])
   \<and> getAll ''branch'' (handleDivisionChange v searchParams) = getAll ''branch'' searchParams
   \<and> getParam ''branch'' (handleDivisionChange v searchParams) = getParam ''branch'' searchParams"
proof -
  have b1: "filter (\<lambda>p. fst p \<noteq> ''branch'') (handleBranchChange v searchParams)
     = filter (\<lambda>p. fst p \<noteq> ''branch'') searchParams"
    using handleBranchChange_others [of v searchParams] by (simp add: deleteParam_def)
  have b2: "getAll ''branch'' (handleBranchChange v searchParams) = (if v = ''all'' then [] else [v])"
    by (simp add: handleBranchChange_def copyParams_def getAll_setParam getAll_deleteParam)
  have "getAll ''division'' (handleBranchChange v searchParams)
      = getAll ''division'' (deleteParam ''branch'' (handleBranchChange v searchParams))"
    by (rule getAll_other) simp
  also have "\<dots> = getAll ''division'' (deleteParam ''branch'' searchParams)"
    by (simp only: handleBranchChange_others)
  also have "\<dots> = getAll ''division'' searchParams"
    by (rule getAll_other [symmetric]) simp
  finally have b3: "getAll ''division'' (handleBranchChange v searchParams) = getAll ''division'' searchParams" .
  then have b4: "getParam ''division'' (handleBranchChange v searchParams) = getParam ''division'' searchParams"
    by (simp only: getParam_getAll)
  have d1: "filter (\<lambda>p. fst p \<noteq> ''division'') (handleDivisionChange v searchParams)
     = filter (\<lambda>p. fst p \<noteq> ''division'') searchParams"
    using handleDivisionChange_others [of v searchParams] by (simp add: deleteParam_def)
  have d2: "getAll ''division'' (handleDivisionChange v searchParams) = (if v = ''all'' then [] else [v])"
    by (simp add: handleDivisionChange_def copyParams_def getAll_setParam getAll_deleteParam)
  have "getAll ''branch'' (handleDivisionChange v searchParams)
      = getAll ''branch'' (deleteParam ''division'' (handleDivisionChange v searchParams))"
    by (rule getAll_other) simp
  also have "\<dots> = getAll ''branch'' (deleteParam ''division'' searchParams)"
    by (simp only: handleDivisionChange_others)
  also have "\<dots> = getAll ''branch'' searchParams"
    by (rule getAll_other [symmetric]) simp
  finally have d3: "getAll ''branch'' (handleDivisionChange v searchParams) = getAll ''branch'' searchParams" .
  then have d4: "getParam ''branch'' (handleDivisionChange v searchParams) = getParam ''branch'' searchParams"
    by (simp only: getParam_getAll)
  from b1 b2 b3 b4 d1 d2 d3 d4 show ?thesis by blast
qed

end
